theory Spec2Isabelle
  imports Main "HOL-Library.Word"
begin

unbundle bit_operations_syntax

section \<open>Data model of the minidrone driver\<close>

text \<open>
  The driver is the Go package \<open>minidrone\<close>. Go's \<open>byte\<close> is an \<open>8 word\<close>, the two
  \<open>uint16\<close> sequence counters are \<open>16 word\<close>s (\<open>++\<close> wraps at 65536). The fields of
  \<open>Pcmd\<close> have Go's type \<open>int\<close>; the driver only compares them, negates values that lie
  in \<open>[0, 100]\<close> and truncates them to a byte, so no arithmetic on them can overflow and
  they are modelled as \<open>int\<close>; the conversion \<open>byte(x)\<close> keeps the low eight bits of the
  two's complement representation, which is \<open>word_of_int x\<close>. The heading \<open>Psi\<close> is a
  \<open>float32\<close>; the driver never computes with it and only takes its bit pattern
  (\<open>math.Float32bits\<close>), so it is modelled by that IEEE-754 bit pattern, a \<open>32 word\<close>
  (the constant \<open>0\<close> of the source is the pattern \<open>0\<close>).
\<close>

type_synonym byte = "8 word"

text \<open>A Go \<open>error\<close> value: \<open>None\<close> is \<open>nil\<close>, \<open>Some msg\<close> an error with its message.\<close>

type_synonym err = "string option"

text \<open>A run-time panic of the Go program.\<close>

datatype panic = IndexOutOfRange

record Pcmd =
  Flag :: int
  Roll :: int
  Pitch :: int
  Yaw :: int
  Gaz :: int
  Psi :: "32 word"

text \<open>
  The struct \<open>Minidrone\<close>, as it is after \<open>Start\<close> has found the services and
  characteristics (the device and service handles themselves are not modelled). The
  two BLE characteristics the driver writes to are modelled
  by what has been handed to their \<open>WriteWithoutResponse\<close>, oldest frame first; the
  answer of the transport to a write is a parameter of the operation that writes. The
  registered handler \<open>pilotingStateHandler\<close> is \<open>None\<close> when it is \<open>nil\<close> and otherwise
  \<open>Some\<close> of the calls \<open>(state, substate)\<close> it has received so far. \<open>stdout\<close> holds the
  lines printed by \<open>fmt.Println\<close>. The mutex \<open>pcmdMutex\<close> is locked and unlocked within
  one operation and has no effect on a sequential run of it. The channel \<open>shutdown\<close>
  belongs to the model of \<open>Halt\<close> and the loop below. The \<open>println\<close> calls under
  the build constant \<open>debug\<close> only print and are left out.
\<close>

record Minidrone =
  commandCharacteristic :: "byte list list"
  pcmdCharacteristic :: "byte list list"
  buf :: "byte list"
  stepsfa0a :: "16 word"
  stepsfa0b :: "16 word"
  Flying :: bool
  Pcmd :: Pcmd
  pcmddata :: "byte list"
  pilotingStateHandler :: "(int \<times> int) list option"
  stdout :: "string list"

definition PilotingStateFlatTrimChanged :: byte where
  "PilotingStateFlatTrimChanged = 0"

definition PilotingStateFlyingStateChanged :: byte where
  "PilotingStateFlyingStateChanged = 1"

definition FlyingStateLanded :: byte where "FlyingStateLanded = 0"
definition FlyingStateTakeoff :: byte where "FlyingStateTakeoff = 1"
definition FlyingStateHovering :: byte where "FlyingStateHovering = 2"
definition FlyingStateFlying :: byte where "FlyingStateFlying = 3"
definition FlyingStateLanding :: byte where "FlyingStateLanding = 4"
definition FlyingStateEmergency :: byte where "FlyingStateEmergency = 5"
definition FlyingStateRolling :: byte where "FlyingStateRolling = 6"

text \<open>\<open>NewMinidrone\<close>: \<open>make([]byte, n)\<close> is \<open>n\<close> zero bytes; nothing has been written.\<close>

definition NewMinidrone :: Minidrone where
  "NewMinidrone =
     \<lparr> commandCharacteristic = [], pcmdCharacteristic = [],
       buf = replicate 255 0,
       stepsfa0a = 0, stepsfa0b = 0,
       Flying = False,
       Pcmd = \<lparr> Flag = 0, Roll = 0, Pitch = 0, Yaw = 0, Gaz = 0, Psi = 0 \<rparr>,
       pcmddata = replicate 19 0,
       pilotingStateHandler = None,
       stdout = [] \<rparr>"

definition PilotingStateChange :: "Minidrone \<Rightarrow> Minidrone" where
  "PilotingStateChange m = m\<lparr> pilotingStateHandler := Some [] \<rparr>"

section \<open>Movement commands\<close>

definition validatePitch :: "int \<Rightarrow> int" where
  "validatePitch val = (if val > 100 then 100 else if val < 0 then 0 else val)"

definition Up :: "int \<Rightarrow> Minidrone \<Rightarrow> err \<times> Minidrone" where
  "Up val m = (None, m\<lparr> Pcmd := (Pcmd m)\<lparr> Flag := 1, Gaz := validatePitch val \<rparr> \<rparr>)"

definition Down :: "int \<Rightarrow> Minidrone \<Rightarrow> err \<times> Minidrone" where
  "Down val m = (None, m\<lparr> Pcmd := (Pcmd m)\<lparr> Flag := 1, Gaz := validatePitch val * -1 \<rparr> \<rparr>)"

definition Forward :: "int \<Rightarrow> Minidrone \<Rightarrow> err \<times> Minidrone" where
  "Forward val m = (None, m\<lparr> Pcmd := (Pcmd m)\<lparr> Flag := 1, Pitch := validatePitch val \<rparr> \<rparr>)"

definition Backward :: "int \<Rightarrow> Minidrone \<Rightarrow> err \<times> Minidrone" where
  "Backward val m =
     (None, m\<lparr> Pcmd := (Pcmd m)\<lparr> Flag := 1, Pitch := validatePitch val * -1 \<rparr> \<rparr>)"

definition Right :: "int \<Rightarrow> Minidrone \<Rightarrow> err \<times> Minidrone" where
  "Right val m = (None, m\<lparr> Pcmd := (Pcmd m)\<lparr> Flag := 1, Roll := validatePitch val \<rparr> \<rparr>)"

definition Left :: "int \<Rightarrow> Minidrone \<Rightarrow> err \<times> Minidrone" where
  "Left val m = (None, m\<lparr> Pcmd := (Pcmd m)\<lparr> Flag := 1, Roll := validatePitch val * -1 \<rparr> \<rparr>)"

definition Clockwise :: "int \<Rightarrow> Minidrone \<Rightarrow> err \<times> Minidrone" where
  "Clockwise val m = (None, m\<lparr> Pcmd := (Pcmd m)\<lparr> Flag := 1, Yaw := validatePitch val \<rparr> \<rparr>)"

definition CounterClockwise :: "int \<Rightarrow> Minidrone \<Rightarrow> err \<times> Minidrone" where
  "CounterClockwise val m =
     (None, m\<lparr> Pcmd := (Pcmd m)\<lparr> Flag := 1, Yaw := validatePitch val * -1 \<rparr> \<rparr>)"

definition Hover :: "Minidrone \<Rightarrow> err \<times> Minidrone" where
  "Hover m =
     (None, m\<lparr> Pcmd := \<lparr> Flag = 0, Roll = 0, Pitch = 0, Yaw = 0, Gaz = 0, Psi = 0 \<rparr> \<rparr>)"

section \<open>Discrete commands\<close>

text \<open>
  Each discrete command increments \<open>stepsfa0b\<close>, builds its frame and hands it to
  \<open>commandCharacteristic.WriteWithoutResponse\<close>; it returns the error of that write,
  which is the parameter \<open>e\<close>. \<open>byte(m.stepsfa0b)\<close> is \<open>ucast\<close>.
\<close>

definition commandWrite :: "byte list \<Rightarrow> Minidrone \<Rightarrow> Minidrone" where
  "commandWrite b m = m\<lparr> commandCharacteristic := commandCharacteristic m @ [b] \<rparr>"

definition pcmdWrite :: "byte list \<Rightarrow> Minidrone \<Rightarrow> Minidrone" where
  "pcmdWrite b m = m\<lparr> pcmdCharacteristic := pcmdCharacteristic m @ [b] \<rparr>"

definition GenerateAllStates :: "err \<Rightarrow> Minidrone \<Rightarrow> err \<times> Minidrone" where
  "GenerateAllStates e m =
     (let m1 = m\<lparr> stepsfa0b := stepsfa0b m + 1 \<rparr>;
          b = [0x04, ucast (stepsfa0b m1) AND 0xff, 0x00, 0x04, 0x01, 0x00,
               0x32, 0x30, 0x31, 0x34, 0x2D, 0x31, 0x30, 0x2D, 0x32, 0x38, 0x00]
      in (e, commandWrite b m1))"

definition TakeOff :: "err \<Rightarrow> Minidrone \<Rightarrow> err \<times> Minidrone" where
  "TakeOff e m =
     (let m1 = m\<lparr> stepsfa0b := stepsfa0b m + 1 \<rparr>;
          b = [0x02, ucast (stepsfa0b m1) AND 0xff, 0x02, 0x00, 0x01, 0x00]
      in (e, commandWrite b m1))"

definition Land :: "err \<Rightarrow> Minidrone \<Rightarrow> err \<times> Minidrone" where
  "Land e m =
     (let m1 = m\<lparr> stepsfa0b := stepsfa0b m + 1 \<rparr>;
          b = [0x02, ucast (stepsfa0b m1) AND 0xff, 0x02, 0x00, 0x03, 0x00]
      in (e, commandWrite b m1))"

definition FlatTrim :: "err \<Rightarrow> Minidrone \<Rightarrow> err \<times> Minidrone" where
  "FlatTrim e m =
     (let m1 = m\<lparr> stepsfa0b := stepsfa0b m + 1 \<rparr>;
          b = [0x02, ucast (stepsfa0b m1) AND 0xff, 0x02, 0x00, 0x00, 0x00]
      in (e, commandWrite b m1))"

definition Emergency :: "err \<Rightarrow> Minidrone \<Rightarrow> err \<times> Minidrone" where
  "Emergency e m =
     (let m1 = m\<lparr> stepsfa0b := stepsfa0b m + 1 \<rparr>;
          b = [0x02, ucast (stepsfa0b m1) AND 0xff, 0x02, 0x00, 0x04, 0x00]
      in (e, commandWrite b m1))"

definition generateAnimation :: "int \<Rightarrow> Minidrone \<Rightarrow> byte list \<times> Minidrone" where
  "generateAnimation anim m =
     (let m1 = m\<lparr> stepsfa0b := stepsfa0b m + 1 \<rparr>
      in ([0x02, ucast (stepsfa0b m1) AND 0xff, 0x02, 0x04, 0x00, 0x00,
           word_of_int anim, 0x00, 0x00, 0x00], m1))"

definition FrontFlip :: "err \<Rightarrow> Minidrone \<Rightarrow> err \<times> Minidrone" where
  "FrontFlip e m = (case generateAnimation 0 m of (b, m1) \<Rightarrow> (e, commandWrite b m1))"

definition BackFlip :: "err \<Rightarrow> Minidrone \<Rightarrow> err \<times> Minidrone" where
  "BackFlip e m = (case generateAnimation 1 m of (b, m1) \<Rightarrow> (e, commandWrite b m1))"

definition RightFlip :: "err \<Rightarrow> Minidrone \<Rightarrow> err \<times> Minidrone" where
  "RightFlip e m = (case generateAnimation 2 m of (b, m1) \<Rightarrow> (e, commandWrite b m1))"

definition LeftFlip :: "err \<Rightarrow> Minidrone \<Rightarrow> err \<times> Minidrone" where
  "LeftFlip e m = (case generateAnimation 3 m of (b, m1) \<Rightarrow> (e, commandWrite b m1))"

section \<open>The piloting-command frame\<close>

text \<open>
  \<open>generatePcmd\<close> assigns by index into \<open>m.pcmddata\<close> and lets
  \<open>binary.LittleEndian.PutUint32\<close> store the four bytes of \<open>math.Float32bits(m.Pcmd.Psi)\<close>,
  low byte first, into the slice \<open>m.buf[11:]\<close>, which shares its array with \<open>m.buf\<close>.
  An index beyond a slice's length panics in Go: that is the first branch.
\<close>

definition generatePcmd :: "Minidrone \<Rightarrow> panic + Minidrone" where
  "generatePcmd m =
     (if length (pcmddata m) < 19 \<or> length (buf m) < 15 then Inl IndexOutOfRange
      else
        let m1 = m\<lparr> stepsfa0a := stepsfa0a m + 1 \<rparr>;
            d = (pcmddata m1)
                  [0 := 0x02,
                   1 := ucast (stepsfa0a m1),
                   2 := 0x02,
                   3 := 0x00,
                   4 := 0x02,
                   5 := 0x00,
                   6 := word_of_int (Flag (Pcmd m1)),
                   7 := word_of_int (Roll (Pcmd m1)),
                   8 := word_of_int (Pitch (Pcmd m1)),
                   9 := word_of_int (Yaw (Pcmd m1)),
                   10 := word_of_int (Gaz (Pcmd m1))];
            v = Psi (Pcmd m1);
            b = (buf m1)
                  [11 := ucast v,
                   12 := ucast (drop_bit 8 v),
                   13 := ucast (drop_bit 16 v),
                   14 := ucast (drop_bit 24 v)];
            d' = d[15 := 0x00, 16 := 0x00, 17 := 0x00, 18 := 0x00]
        in Inr (m1\<lparr> buf := b, pcmddata := d' \<rparr>))"

text \<open>
  The slices as \<open>NewMinidrone\<close> makes them; no operation of the driver changes their
  lengths.
\<close>

definition sized :: "Minidrone \<Rightarrow> bool" where
  "sized m = (length (pcmddata m) = 19 \<and> length (buf m) = 255)"

text \<open>
  The reader of the heading field on the drone's side, \<open>binary.LittleEndian.Uint32\<close> on
  bytes 11 to 14 of a frame (the bit pattern of the float32 it decodes).
\<close>

definition headingBits :: "byte list \<Rightarrow> 32 word" where
  "headingBits f =
     ucast (f ! 11) OR push_bit 8 (ucast (f ! 12)) OR push_bit 16 (ucast (f ! 13))
       OR push_bit 24 (ucast (f ! 14))"

section \<open>The piloting-command loop\<close>

text \<open>
  One pass through the body of the \<open>for\<close> loop of \<open>StartPcmd\<close> after the \<open>select\<close>:
  \<open>generatePcmd\<close>, the write of \<open>m.pcmddata\<close> to the piloting characteristic, and the
  \<open>fmt.Println\<close> when the write returned the error \<open>e\<close>.
\<close>

definition pcmdTick :: "err \<Rightarrow> Minidrone \<Rightarrow> panic + Minidrone" where
  "pcmdTick e m =
     (case generatePcmd m of
        Inl p \<Rightarrow> Inl p
      | Inr m1 \<Rightarrow>
          let m2 = pcmdWrite (pcmddata m1) m1
          in Inr (case e of
                    None \<Rightarrow> m2
                  | Some msg \<Rightarrow> m2\<lparr> stdout := stdout m2 @ [''pcmd write error: '' @ msg] \<rparr>))"

text \<open>
  The goroutine of \<open>StartPcmd\<close> either is in its loop or has returned. The loop does
  not end by itself, so it is run against a finite list of what the surroundings do at
  each pass: whether a value can be received from \<open>m.shutdown\<close> when the \<open>select\<close> is
  reached, and what the write returns. When the list is used up the goroutine is still
  \<open>Looping\<close>.
\<close>

datatype goroutine = Looping | Returned

fun pcmdLoop :: "(bool \<times> err) list \<Rightarrow> Minidrone \<Rightarrow> panic + (goroutine \<times> Minidrone)" where
  "pcmdLoop [] m = Inr (Looping, m)"
| "pcmdLoop ((shut, e) # evs) m =
     (if shut then Inr (Returned, m)
      else case pcmdTick e m of
             Inl p \<Rightarrow> Inl p
           | Inr m1 \<Rightarrow> pcmdLoop evs m1)"

section \<open>The status decoder\<close>

definition callHandler :: "int \<Rightarrow> int \<Rightarrow> Minidrone \<Rightarrow> Minidrone" where
  "callHandler state substate m =
     (case pilotingStateHandler m of
        None \<Rightarrow> m
      | Some calls \<Rightarrow> m\<lparr> pilotingStateHandler := Some (calls @ [(state, substate)]) \<rparr>)"

text \<open>
  \<open>processFlightStatus\<close>: \<open>data[6]\<close> is read in the \<open>FlyingStateChanged\<close> case only, and
  Go panics there when the slice has fewer than seven bytes.
\<close>

definition processFlightStatus :: "byte list \<Rightarrow> Minidrone \<Rightarrow> panic + Minidrone" where
  "processFlightStatus data m =
     (if length data < 5 then Inr m
      else if data ! 4 = PilotingStateFlatTrimChanged then
        Inr (callHandler (uint (data ! 4)) 0 m)
      else if data ! 4 = PilotingStateFlyingStateChanged then
        (if length data \<le> 6 then Inl IndexOutOfRange
         else
           let m1 =
             (if data ! 6 = FlyingStateLanded then
                (if Flying m then m\<lparr> Flying := False \<rparr> else m)
              else if data ! 6 = FlyingStateTakeoff then m
              else if data ! 6 = FlyingStateHovering then
                (if \<not> Flying m then m\<lparr> Flying := True \<rparr> else m)
              else if data ! 6 = FlyingStateFlying then
                (if \<not> Flying m then m\<lparr> Flying := True \<rparr> else m)
              else if data ! 6 = FlyingStateLanding then m
              else if data ! 6 = FlyingStateEmergency then m
              else if data ! 6 = FlyingStateRolling then m
              else m)
           in Inr (callHandler (uint (data ! 4)) (uint (data ! 6)) m1))
      else Inr m)"

section \<open>Sequences of operations\<close>

text \<open>
  A run of the driver is a list of calls, each with the answer of the transport to its
  write where it writes. \<open>CallPcmdTick\<close> is one pass of the piloting-command loop.
\<close>

datatype call =
    CallGenerateAllStates err
  | CallTakeOff err
  | CallLand err
  | CallFlatTrim err
  | CallEmergency err
  | CallFrontFlip err
  | CallBackFlip err
  | CallRightFlip err
  | CallLeftFlip err
  | CallPcmdTick err
  | CallUp int
  | CallDown int
  | CallForward int
  | CallBackward int
  | CallRight int
  | CallLeft int
  | CallClockwise int
  | CallCounterClockwise int
  | CallHover

fun exec :: "call \<Rightarrow> Minidrone \<Rightarrow> panic + Minidrone" where
  "exec (CallGenerateAllStates e) m = Inr (snd (GenerateAllStates e m))"
| "exec (CallTakeOff e) m = Inr (snd (TakeOff e m))"
| "exec (CallLand e) m = Inr (snd (Land e m))"
| "exec (CallFlatTrim e) m = Inr (snd (FlatTrim e m))"
| "exec (CallEmergency e) m = Inr (snd (Emergency e m))"
| "exec (CallFrontFlip e) m = Inr (snd (FrontFlip e m))"
| "exec (CallBackFlip e) m = Inr (snd (BackFlip e m))"
| "exec (CallRightFlip e) m = Inr (snd (RightFlip e m))"
| "exec (CallLeftFlip e) m = Inr (snd (LeftFlip e m))"
| "exec (CallPcmdTick e) m = pcmdTick e m"
| "exec (CallUp v) m = Inr (snd (Up v m))"
| "exec (CallDown v) m = Inr (snd (Down v m))"
| "exec (CallForward v) m = Inr (snd (Forward v m))"
| "exec (CallBackward v) m = Inr (snd (Backward v m))"
| "exec (CallRight v) m = Inr (snd (Right v m))"
| "exec (CallLeft v) m = Inr (snd (Left v m))"
| "exec (CallClockwise v) m = Inr (snd (Clockwise v m))"
| "exec (CallCounterClockwise v) m = Inr (snd (CounterClockwise v m))"
| "exec CallHover m = Inr (snd (Hover m))"

fun execs :: "call list \<Rightarrow> Minidrone \<Rightarrow> panic + Minidrone" where
  "execs [] m = Inr m"
| "execs (c # cs) m = (case exec c m of Inl p \<Rightarrow> Inl p | Inr m1 \<Rightarrow> execs cs m1)"

text \<open>The calls that send on the command channel, and those on the piloting channel.\<close>

fun onCommandChannel :: "call \<Rightarrow> bool" where
  "onCommandChannel (CallGenerateAllStates e) = True"
| "onCommandChannel (CallTakeOff e) = True"
| "onCommandChannel (CallLand e) = True"
| "onCommandChannel (CallFlatTrim e) = True"
| "onCommandChannel (CallEmergency e) = True"
| "onCommandChannel (CallFrontFlip e) = True"
| "onCommandChannel (CallBackFlip e) = True"
| "onCommandChannel (CallRightFlip e) = True"
| "onCommandChannel (CallLeftFlip e) = True"
| "onCommandChannel c = False"

fun onPcmdChannel :: "call \<Rightarrow> bool" where
  "onPcmdChannel (CallPcmdTick e) = True"
| "onPcmdChannel c = False"

section \<open>Halt and the goroutine of the loop\<close>

text \<open>
  \<open>Halt\<close> is three statements: \<open>m.Land()\<close>, the send \<open>m.shutdown <- true\<close> and the
  sleep. \<open>m.shutdown\<close> is made by \<open>make(chan bool)\<close>, a channel without buffer: a send
  on it completes only together with a receive, and the only receive in the driver is
  the \<open>case <-m.shutdown\<close> of the loop's \<open>select\<close>. The \<open>select\<close> has a \<open>default\<close>
  case, so the loop takes the value when a sender is waiting and goes on otherwise.

  A system is the driver, the goroutine of \<open>StartPcmd\<close> and the statements the calling
  goroutine still has to run. A step is taken by one of the two goroutines. The caller
  takes none when it has finished or stands at the send; the completion of the send is
  part of the loop's step that receives. The loop takes none once it has returned.
\<close>

datatype halt_stmt = HaltLand | HaltSend | HaltSleep

definition Halt :: "halt_stmt list" where
  "Halt = [HaltLand, HaltSend, HaltSleep]"

record system =
  drone :: Minidrone
  loop :: goroutine
  todo :: "halt_stmt list"

text \<open>
  The system once \<open>StartPcmd\<close> has started the goroutine, with the statements \<open>prog\<close>
  ahead of the caller. The sleeps (500 ms before the loop and after the send, 50 ms per
  pass) take time and nothing else, and time is not modelled.
\<close>

definition StartPcmd :: "Minidrone \<Rightarrow> halt_stmt list \<Rightarrow> system" where
  "StartPcmd m prog = \<lparr> drone = m, loop = Looping, todo = prog \<rparr>"

datatype thread = Caller | Loop

definition senderWaiting :: "system \<Rightarrow> bool" where
  "senderWaiting s = (case todo s of HaltSend # r \<Rightarrow> True | _ \<Rightarrow> False)"

definition enabled :: "thread \<Rightarrow> system \<Rightarrow> bool" where
  "enabled t s =
     (case t of
        Caller \<Rightarrow> (case todo s of [] \<Rightarrow> False | HaltSend # r \<Rightarrow> False | _ \<Rightarrow> True)
      | Loop \<Rightarrow> loop s = Looping)"

fun step :: "thread \<times> err \<Rightarrow> system \<Rightarrow> panic + system" where
  "step (Caller, e) s =
     (case todo s of
        HaltLand # r \<Rightarrow> Inr (s\<lparr> drone := snd (Land e (drone s)), todo := r \<rparr>)
      | HaltSleep # r \<Rightarrow> Inr (s\<lparr> todo := r \<rparr>)
      | _ \<Rightarrow> Inr s)"
| "step (Loop, e) s =
     (case loop s of
        Returned \<Rightarrow> Inr s
      | Looping \<Rightarrow>
          (case pcmdLoop [(senderWaiting s, e)] (drone s) of
             Inl p \<Rightarrow> Inl p
           | Inr (g, d) \<Rightarrow>
               Inr (s\<lparr> drone := d, loop := g,
                       todo := (if g = Returned then tl (todo s) else todo s) \<rparr>)))"

fun run :: "(thread \<times> err) list \<Rightarrow> system \<Rightarrow> panic + system" where
  "run [] s = Inr s"
| "run (t # ts) s = (case step t s of Inl p \<Rightarrow> Inl p | Inr s1 \<Rightarrow> run ts s1)"

text \<open>No goroutine can take a step and the caller has not finished.\<close>

definition deadlocked :: "system \<Rightarrow> bool" where
  "deadlocked s = (todo s \<noteq> [] \<and> \<not> enabled Caller s \<and> \<not> enabled Loop s)"

text \<open>
  The states that two consecutive calls of \<open>Halt\<close> can be in when the loop was running
  at the first call: while the loop runs the caller is before or at the first send; once
  the loop has returned the caller is past the first send and at most at the second.
\<close>

definition haltTwice :: "system \<Rightarrow> bool" where
  "haltTwice s =
     (sized (drone s) \<and>
      (if loop s = Looping
       then todo s = Halt @ Halt \<or> todo s = [HaltSend, HaltSleep] @ Halt
       else todo s = [HaltSleep] @ Halt \<or> todo s = Halt \<or> todo s = [HaltSend, HaltSleep]))"

section \<open>Theorems\<close>

lemmas state_consts =
  PilotingStateFlatTrimChanged_def PilotingStateFlyingStateChanged_def
  FlyingStateLanded_def FlyingStateTakeoff_def FlyingStateHovering_def
  FlyingStateFlying_def FlyingStateLanding_def FlyingStateEmergency_def
  FlyingStateRolling_def

lemmas directional_defs =
  Up_def Down_def Forward_def Backward_def Right_def Left_def Clockwise_def
  CounterClockwise_def

subsection \<open>Movement commands\<close>

text \<open>\<open>validatePitch\<close> is the clamp of the specification, \<open>clamp(m, 0, 100)\<close>.\<close>

lemma validatePitch_clamp: "validatePitch v = max 0 (min 100 v)"
  by (simp add: validatePitch_def)

lemma validatePitch_range: "0 \<le> validatePitch v \<and> validatePitch v \<le> 100"
  by (simp add: validatePitch_def)

text \<open>
  C3. For every integer magnitude \<open>v\<close> and every prior state \<open>m\<close>, each directional
  command returns no error and changes nothing but the motion vector, where it sets
  \<open>Flag\<close> to 1 and its own axis to the magnitude clamped into \<open>[0, 100]\<close> (\<open>Up\<close>,
  \<open>Forward\<close>, \<open>Right\<close>, \<open>Clockwise\<close>) or to the negated clamped magnitude (\<open>Down\<close>,
  \<open>Backward\<close>, \<open>Left\<close>, \<open>CounterClockwise\<close>); the other axes and the heading keep
  their values.
\<close>

theorem directional_commands_clamp:
  "Up v m = (None, m\<lparr> Pcmd := (Pcmd m)\<lparr> Flag := 1, Gaz := max 0 (min 100 v) \<rparr> \<rparr>) \<and>
   Down v m = (None, m\<lparr> Pcmd := (Pcmd m)\<lparr> Flag := 1, Gaz := - max 0 (min 100 v) \<rparr> \<rparr>) \<and>
   Forward v m = (None, m\<lparr> Pcmd := (Pcmd m)\<lparr> Flag := 1, Pitch := max 0 (min 100 v) \<rparr> \<rparr>) \<and>
   Backward v m = (None, m\<lparr> Pcmd := (Pcmd m)\<lparr> Flag := 1, Pitch := - max 0 (min 100 v) \<rparr> \<rparr>) \<and>
   Right v m = (None, m\<lparr> Pcmd := (Pcmd m)\<lparr> Flag := 1, Roll := max 0 (min 100 v) \<rparr> \<rparr>) \<and>
   Left v m = (None, m\<lparr> Pcmd := (Pcmd m)\<lparr> Flag := 1, Roll := - max 0 (min 100 v) \<rparr> \<rparr>) \<and>
   Clockwise v m = (None, m\<lparr> Pcmd := (Pcmd m)\<lparr> Flag := 1, Yaw := max 0 (min 100 v) \<rparr> \<rparr>) \<and>
   CounterClockwise v m =
     (None, m\<lparr> Pcmd := (Pcmd m)\<lparr> Flag := 1, Yaw := - max 0 (min 100 v) \<rparr> \<rparr>)"
  by (simp add: directional_defs validatePitch_clamp)

text \<open>
  C6. From every prior state \<open>Hover\<close> returns no error and leaves the motion vector
  with \<open>Flag\<close>, \<open>Roll\<close>, \<open>Pitch\<close>, \<open>Yaw\<close>, \<open>Gaz\<close> and \<open>Psi\<close> all 0. No other movement
  operation does so: every directional command leaves \<open>Flag\<close> at 1, and from a state
  whose roll and pitch are both engaged it leaves one of the two engaged; take-off,
  landing, flat trim, emergency and the flips do not touch the motion vector.
\<close>

theorem Hover_resets_all:
  "fst (Hover m) = None \<and>
   Pcmd (snd (Hover m)) = \<lparr> Flag = 0, Roll = 0, Pitch = 0, Yaw = 0, Gaz = 0, Psi = 0 \<rparr> \<and>
   Flag (Pcmd (snd (Up v m))) = 1 \<and> Flag (Pcmd (snd (Down v m))) = 1 \<and>
   Flag (Pcmd (snd (Forward v m))) = 1 \<and> Flag (Pcmd (snd (Backward v m))) = 1 \<and>
   Flag (Pcmd (snd (Right v m))) = 1 \<and> Flag (Pcmd (snd (Left v m))) = 1 \<and>
   Flag (Pcmd (snd (Clockwise v m))) = 1 \<and> Flag (Pcmd (snd (CounterClockwise v m))) = 1 \<and>
   (Roll (Pcmd m) \<noteq> 0 \<and> Pitch (Pcmd m) \<noteq> 0 \<longrightarrow>
      (Roll (Pcmd (snd (Up v m))) \<noteq> 0 \<or> Pitch (Pcmd (snd (Up v m))) \<noteq> 0) \<and>
      (Roll (Pcmd (snd (Down v m))) \<noteq> 0 \<or> Pitch (Pcmd (snd (Down v m))) \<noteq> 0) \<and>
      (Roll (Pcmd (snd (Forward v m))) \<noteq> 0 \<or> Pitch (Pcmd (snd (Forward v m))) \<noteq> 0) \<and>
      (Roll (Pcmd (snd (Backward v m))) \<noteq> 0 \<or> Pitch (Pcmd (snd (Backward v m))) \<noteq> 0) \<and>
      (Roll (Pcmd (snd (Right v m))) \<noteq> 0 \<or> Pitch (Pcmd (snd (Right v m))) \<noteq> 0) \<and>
      (Roll (Pcmd (snd (Left v m))) \<noteq> 0 \<or> Pitch (Pcmd (snd (Left v m))) \<noteq> 0) \<and>
      (Roll (Pcmd (snd (Clockwise v m))) \<noteq> 0 \<or>
       Pitch (Pcmd (snd (Clockwise v m))) \<noteq> 0) \<and>
      (Roll (Pcmd (snd (CounterClockwise v m))) \<noteq> 0 \<or>
       Pitch (Pcmd (snd (CounterClockwise v m))) \<noteq> 0)) \<and>
   Pcmd (snd (TakeOff e m)) = Pcmd m \<and> Pcmd (snd (Land e m)) = Pcmd m \<and>
   Pcmd (snd (FlatTrim e m)) = Pcmd m \<and> Pcmd (snd (Emergency e m)) = Pcmd m \<and>
   Pcmd (snd (FrontFlip e m)) = Pcmd m \<and> Pcmd (snd (BackFlip e m)) = Pcmd m \<and>
   Pcmd (snd (RightFlip e m)) = Pcmd m \<and> Pcmd (snd (LeftFlip e m)) = Pcmd m"
  by (simp add: Hover_def directional_defs TakeOff_def Land_def FlatTrim_def Emergency_def
      FrontFlip_def BackFlip_def RightFlip_def LeftFlip_def generateAnimation_def
      commandWrite_def Let_def)

theorem Hover_resets_all_witness:
  "Roll (Pcmd (snd (Right 20 (snd (Forward 30 NewMinidrone))))) = 20 \<and>
   Pitch (Pcmd (snd (Right 20 (snd (Forward 30 NewMinidrone))))) = 30 \<and>
   Pcmd (snd (Hover (snd (Right 20 (snd (Forward 30 NewMinidrone)))))) =
     \<lparr> Flag = 0, Roll = 0, Pitch = 0, Yaw = 0, Gaz = 0, Psi = 0 \<rparr> \<and>
   Flag (Pcmd (snd (Left 0 (snd (Right 20 (snd (Forward 30 NewMinidrone))))))) = 1 \<and>
   Pitch (Pcmd (snd (Left 0 (snd (Right 20 (snd (Forward 30 NewMinidrone))))))) = 30"
  using Hover_resets_all [of "snd (Right 20 (snd (Forward 30 NewMinidrone)))" 0 None]
  by (simp add: Left_def Right_def Forward_def validatePitch_def NewMinidrone_def)

subsection \<open>Discrete command frames\<close>

lemma byte_and_ff: "(w :: byte) AND 0xff = w"
proof -
  have "(0xff :: byte) = - 1" by simp
  then show ?thesis by (simp only: and.right_neutral)
qed

lemma seq_byte: "(ucast (w :: 16 word) :: byte) AND 0xff = ucast w"
  by (rule byte_and_ff)

text \<open>
  C7. With \<open>seq\<close> the low byte of the incremented command counter, \<open>TakeOff\<close>, \<open>Land\<close>,
  \<open>FlatTrim\<close> and \<open>Emergency\<close> hand the transport the six bytes
  \<open>[0x02, seq, 0x02, 0x00, id, 0x00]\<close> with \<open>id\<close> 0x01, 0x03, 0x00 and 0x04;
  \<open>GenerateAllStates\<close> hands it \<open>[0x04, seq, 0x00, 0x04, 0x01, 0x00]\<close>, the bytes of the
  date string \<open>2014-10-28\<close> and a final 0x00; the front, back, right and left flips hand
  it \<open>[0x02, seq, 0x02, 0x04, 0x00, 0x00, id, 0x00, 0x00, 0x00]\<close> with \<open>id\<close> 0, 1, 2
  and 3.
\<close>

theorem discrete_frames:
  "commandCharacteristic (snd (TakeOff e m)) =
     commandCharacteristic m @ [[0x02, ucast (stepsfa0b m + 1), 0x02, 0x00, 0x01, 0x00]] \<and>
   commandCharacteristic (snd (Land e m)) =
     commandCharacteristic m @ [[0x02, ucast (stepsfa0b m + 1), 0x02, 0x00, 0x03, 0x00]] \<and>
   commandCharacteristic (snd (FlatTrim e m)) =
     commandCharacteristic m @ [[0x02, ucast (stepsfa0b m + 1), 0x02, 0x00, 0x00, 0x00]] \<and>
   commandCharacteristic (snd (Emergency e m)) =
     commandCharacteristic m @ [[0x02, ucast (stepsfa0b m + 1), 0x02, 0x00, 0x04, 0x00]] \<and>
   commandCharacteristic (snd (GenerateAllStates e m)) =
     commandCharacteristic m @
       [[0x04, ucast (stepsfa0b m + 1), 0x00, 0x04, 0x01, 0x00] @
        map (of_nat \<circ> of_char) ''2014-10-28'' @ [0x00]] \<and>
   commandCharacteristic (snd (FrontFlip e m)) =
     commandCharacteristic m @
       [[0x02, ucast (stepsfa0b m + 1), 0x02, 0x04, 0x00, 0x00, 0, 0x00, 0x00, 0x00]] \<and>
   commandCharacteristic (snd (BackFlip e m)) =
     commandCharacteristic m @
       [[0x02, ucast (stepsfa0b m + 1), 0x02, 0x04, 0x00, 0x00, 1, 0x00, 0x00, 0x00]] \<and>
   commandCharacteristic (snd (RightFlip e m)) =
     commandCharacteristic m @
       [[0x02, ucast (stepsfa0b m + 1), 0x02, 0x04, 0x00, 0x00, 2, 0x00, 0x00, 0x00]] \<and>
   commandCharacteristic (snd (LeftFlip e m)) =
     commandCharacteristic m @
       [[0x02, ucast (stepsfa0b m + 1), 0x02, 0x04, 0x00, 0x00, 3, 0x00, 0x00, 0x00]]"
  by (simp add: TakeOff_def Land_def FlatTrim_def Emergency_def GenerateAllStates_def
      FrontFlip_def BackFlip_def RightFlip_def LeftFlip_def generateAnimation_def
      commandWrite_def Let_def seq_byte)

subsection \<open>The status decoder\<close>

text \<open>
  C8. A notification of fewer than five bytes is ignored: \<open>processFlightStatus\<close> returns
  without a panic and the driver, with its \<open>Flying\<close> flag and the record of the calls
  its handler has received, is exactly what it was.
\<close>

theorem short_notification_ignored:
  "length data < 5 \<Longrightarrow> processFlightStatus data m = Inr m"
  by (simp add: processFlightStatus_def)

theorem short_notification_ignored_witness:
  "length [2, 7, 2, 3 :: byte] < 5 \<and>
   processFlightStatus [2, 7, 2, 3] (PilotingStateChange NewMinidrone) =
     Inr (PilotingStateChange NewMinidrone)"
  using short_notification_ignored [of "[2, 7, 2, 3]" "PilotingStateChange NewMinidrone"]
  by simp








text \<open>
  C10. The length guard of \<open>processFlightStatus\<close> admits every notification of five
  bytes, and the \<open>FlyingStateChanged\<close> case reads byte 6: on a five-byte notification
  whose byte 4 is 1 the read is out of range and the goroutine panics.
\<close>

theorem short_flying_state_frame_panics:
  "processFlightStatus [0x04, 0x01, 0x02, 0x03, 0x01] NewMinidrone = Inl IndexOutOfRange"
  by (simp add: processFlightStatus_def state_consts)

subsection \<open>Sequence counters\<close>

lemma generatePcmd_sized:
  assumes "sized m"
  shows "\<exists>m1. generatePcmd m = Inr m1 \<and> sized m1 \<and>
     stepsfa0a m1 = stepsfa0a m + 1 \<and> stepsfa0b m1 = stepsfa0b m \<and>
     commandCharacteristic m1 = commandCharacteristic m \<and>
     pcmdCharacteristic m1 = pcmdCharacteristic m \<and>
     Pcmd m1 = Pcmd m \<and> Flying m1 = Flying m \<and>
     pilotingStateHandler m1 = pilotingStateHandler m \<and> stdout m1 = stdout m \<and>
     pcmddata m1 ! 1 = ucast (stepsfa0a m + 1)"
  using assms by (simp add: generatePcmd_def sized_def Let_def)

lemma pcmdTick_sized:
  assumes "sized m"
  shows "\<exists>m1 f. pcmdTick e m = Inr m1 \<and> sized m1 \<and>
     stepsfa0a m1 = stepsfa0a m + 1 \<and> stepsfa0b m1 = stepsfa0b m \<and>
     commandCharacteristic m1 = commandCharacteristic m \<and>
     pcmdCharacteristic m1 = pcmdCharacteristic m @ [f] \<and>
     f ! 1 = ucast (stepsfa0a m + 1) \<and> length f = 19 \<and>
     Pcmd m1 = Pcmd m \<and> Flying m1 = Flying m \<and>
     pilotingStateHandler m1 = pilotingStateHandler m"
proof -
  from generatePcmd_sized [OF assms] obtain m0 where
    g: "generatePcmd m = Inr m0" and s0: "sized m0"
    and r: "stepsfa0a m0 = stepsfa0a m + 1" "stepsfa0b m0 = stepsfa0b m"
      "commandCharacteristic m0 = commandCharacteristic m"
      "pcmdCharacteristic m0 = pcmdCharacteristic m"
      "Pcmd m0 = Pcmd m" "Flying m0 = Flying m"
      "pilotingStateHandler m0 = pilotingStateHandler m"
      "pcmddata m0 ! 1 = ucast (stepsfa0a m + 1)"
    by blast
  from s0 have l: "length (pcmddata m0) = 19" by (simp add: sized_def)
  show ?thesis
    using s0 r l
    by (cases e) (simp_all add: pcmdTick_def g pcmdWrite_def sized_def Let_def)
qed

lemma command_step:
  assumes "onCommandChannel c"
  shows "\<exists>m1 f. exec c m = Inr m1 \<and> (sized m \<longrightarrow> sized m1) \<and>
     stepsfa0b m1 = stepsfa0b m + 1 \<and> stepsfa0a m1 = stepsfa0a m \<and>
     commandCharacteristic m1 = commandCharacteristic m @ [f] \<and>
     pcmdCharacteristic m1 = pcmdCharacteristic m \<and>
     f ! 1 = ucast (stepsfa0b m + 1)"
  using assms
  by (cases c)
    (simp_all add: TakeOff_def Land_def FlatTrim_def Emergency_def GenerateAllStates_def
      FrontFlip_def BackFlip_def RightFlip_def LeftFlip_def generateAnimation_def
      commandWrite_def Let_def seq_byte sized_def)

lemma other_step:
  assumes "\<not> onCommandChannel c" and "\<not> onPcmdChannel c"
  shows "\<exists>m1. exec c m = Inr m1 \<and> (sized m \<longrightarrow> sized m1) \<and>
     stepsfa0b m1 = stepsfa0b m \<and> stepsfa0a m1 = stepsfa0a m \<and>
     commandCharacteristic m1 = commandCharacteristic m \<and>
     pcmdCharacteristic m1 = pcmdCharacteristic m"
  using assms
  by (cases c) (simp_all add: directional_defs Hover_def sized_def)

lemma exec_step:
  assumes "sized m"
  shows "\<exists>m1 X Y. exec c m = Inr m1 \<and> sized m1 \<and>
     commandCharacteristic m1 = commandCharacteristic m @ X \<and>
     pcmdCharacteristic m1 = pcmdCharacteristic m @ Y \<and>
     length X = (if onCommandChannel c then 1 else 0) \<and>
     length Y = (if onPcmdChannel c then 1 else 0) \<and>
     (\<forall>f\<in>set X. f ! 1 = ucast (stepsfa0b m + 1)) \<and>
     (\<forall>f\<in>set Y. f ! 1 = ucast (stepsfa0a m + 1)) \<and>
     stepsfa0b m1 = stepsfa0b m + of_nat (length X) \<and>
     stepsfa0a m1 = stepsfa0a m + of_nat (length Y)"
proof (cases "onCommandChannel c")
  case True
  then have np: "\<not> onPcmdChannel c" by (cases c) simp_all
  from command_step [OF True, of m] assms obtain m1 f where
    "exec c m = Inr m1" "sized m1" "stepsfa0b m1 = stepsfa0b m + 1"
    "stepsfa0a m1 = stepsfa0a m" "commandCharacteristic m1 = commandCharacteristic m @ [f]"
    "pcmdCharacteristic m1 = pcmdCharacteristic m" "f ! 1 = ucast (stepsfa0b m + 1)"
    by blast
  then show ?thesis using True np
    by (intro exI [of _ m1] exI [of _ "[f]"] exI [of _ "[]"]) simp
next
  case False
  show ?thesis
  proof (cases "onPcmdChannel c")
    case True
    then obtain e where c: "c = CallPcmdTick e" by (cases c) simp_all
    from pcmdTick_sized [OF assms, of e] obtain m1 f where
      "pcmdTick e m = Inr m1" "sized m1" "stepsfa0a m1 = stepsfa0a m + 1"
      "stepsfa0b m1 = stepsfa0b m" "commandCharacteristic m1 = commandCharacteristic m"
      "pcmdCharacteristic m1 = pcmdCharacteristic m @ [f]" "f ! 1 = ucast (stepsfa0a m + 1)"
      by blast
    then show ?thesis using c
      by (intro exI [of _ m1] exI [of _ "[]"] exI [of _ "[f]"]) simp
  next
    case np: False
    from other_step [OF False np, of m] assms obtain m1 where
      "exec c m = Inr m1" "sized m1" "stepsfa0b m1 = stepsfa0b m"
      "stepsfa0a m1 = stepsfa0a m" "commandCharacteristic m1 = commandCharacteristic m"
      "pcmdCharacteristic m1 = pcmdCharacteristic m"
      by blast
    then show ?thesis using False np
      by (intro exI [of _ m1] exI [of _ "[]"] exI [of _ "[]"]) simp
  qed
qed

lemma seq_append:
  fixes c :: "16 word" and X F :: "byte list list"
  assumes X: "length X \<le> 1" "\<forall>f\<in>set X. f ! 1 = ucast (c + 1)"
    and F: "\<forall>k<length F. F ! k ! 1 = ucast (c + of_nat (length X) + of_nat (Suc k))"
  shows "\<forall>k<length (X @ F). (X @ F) ! k ! 1 = ucast (c + of_nat (Suc k))"
proof (cases X)
  case Nil
  with F show ?thesis by simp
next
  case (Cons f X')
  with X have X1: "X = [f]" and f: "f ! 1 = ucast (c + 1)" by simp_all
  show ?thesis
  proof (intro allI impI)
    fix k assume k: "k < length (X @ F)"
    show "(X @ F) ! k ! 1 = ucast (c + of_nat (Suc k))"
    proof (cases k)
      case 0
      then show ?thesis using X1 f by simp
    next
      case (Suc j)
      with k X1 have "j < length F" by simp
      with F X1 have "F ! j ! 1 = ucast (c + 1 + of_nat (Suc j))" by simp
      then show ?thesis using Suc X1 by (simp add: add.assoc)
    qed
  qed
qed

lemma execs_sequences:
  assumes "sized m"
  shows "\<exists>m' F G. execs cs m = Inr m' \<and> sized m' \<and>
     commandCharacteristic m' = commandCharacteristic m @ F \<and>
     pcmdCharacteristic m' = pcmdCharacteristic m @ G \<and>
     length F = length (filter onCommandChannel cs) \<and>
     length G = length (filter onPcmdChannel cs) \<and>
     (\<forall>k<length F. F ! k ! 1 = ucast (stepsfa0b m + of_nat (Suc k))) \<and>
     (\<forall>k<length G. G ! k ! 1 = ucast (stepsfa0a m + of_nat (Suc k))) \<and>
     stepsfa0b m' = stepsfa0b m + of_nat (length F) \<and>
     stepsfa0a m' = stepsfa0a m + of_nat (length G)"
  using assms
proof (induction cs arbitrary: m)
  case Nil
  then show ?case by simp
next
  case (Cons c cs)
  from exec_step [OF Cons.prems, of c] obtain m1 X Y where
    e: "exec c m = Inr m1" and s1: "sized m1"
    and cX: "commandCharacteristic m1 = commandCharacteristic m @ X"
    and pY: "pcmdCharacteristic m1 = pcmdCharacteristic m @ Y"
    and lX: "length X = (if onCommandChannel c then 1 else 0)"
    and lY: "length Y = (if onPcmdChannel c then 1 else 0)"
    and sX: "\<forall>f\<in>set X. f ! 1 = ucast (stepsfa0b m + 1)"
    and sY: "\<forall>f\<in>set Y. f ! 1 = ucast (stepsfa0a m + 1)"
    and b1: "stepsfa0b m1 = stepsfa0b m + of_nat (length X)"
    and a1: "stepsfa0a m1 = stepsfa0a m + of_nat (length Y)"
    by blast
  from Cons.IH [OF s1] obtain m' F G where
    r: "execs cs m1 = Inr m'" and s': "sized m'"
    and cF: "commandCharacteristic m' = commandCharacteristic m1 @ F"
    and pG: "pcmdCharacteristic m' = pcmdCharacteristic m1 @ G"
    and lF: "length F = length (filter onCommandChannel cs)"
    and lG: "length G = length (filter onPcmdChannel cs)"
    and sF: "\<forall>k<length F. F ! k ! 1 = ucast (stepsfa0b m1 + of_nat (Suc k))"
    and sG: "\<forall>k<length G. G ! k ! 1 = ucast (stepsfa0a m1 + of_nat (Suc k))"
    and b': "stepsfa0b m' = stepsfa0b m1 + of_nat (length F)"
    and a': "stepsfa0a m' = stepsfa0a m1 + of_nat (length G)"
    by blast
  have qF: "\<forall>k<length (X @ F). (X @ F) ! k ! 1 = ucast (stepsfa0b m + of_nat (Suc k))"
    using lX sX sF unfolding b1 by (intro seq_append) simp_all
  have qG: "\<forall>k<length (Y @ G). (Y @ G) ! k ! 1 = ucast (stepsfa0a m + of_nat (Suc k))"
    using lY sY sG unfolding a1 by (intro seq_append) simp_all
  have "execs (c # cs) m = Inr m'" using e r by simp
  moreover have "commandCharacteristic m' = commandCharacteristic m @ (X @ F)"
    using cX cF by simp
  moreover have "pcmdCharacteristic m' = pcmdCharacteristic m @ (Y @ G)"
    using pY pG by simp
  moreover have "length (X @ F) = length (filter onCommandChannel (c # cs))"
    using lX lF by simp
  moreover have "length (Y @ G) = length (filter onPcmdChannel (c # cs))"
    using lY lG by simp
  moreover have "stepsfa0b m' = stepsfa0b m + of_nat (length (X @ F))"
    using b1 b' by (simp add: add.assoc)
  moreover have "stepsfa0a m' = stepsfa0a m + of_nat (length (Y @ G))"
    using a1 a' by (simp add: add.assoc)
  ultimately show ?case using s' qF qG by blast
qed

lemma unat_seq_byte:
  fixes c :: "16 word"
  shows "unat (ucast (c + of_nat n) :: byte) = (unat c + n) mod 256"
proof -
  have "unat (ucast (c + of_nat n) :: byte) = unat (c + of_nat n) mod 256"
    by (simp add: unsigned_ucast_eq take_bit_eq_mod)
  also have "unat (c + of_nat n :: 16 word) = (unat c + n mod 65536) mod 65536"
    by (simp add: unat_word_ariths unat_of_nat)
  also have "\<dots> = (unat c + n) mod 65536"
    by (simp add: mod_add_right_eq)
  also have "(unat c + n) mod 65536 mod 256 = (unat c + n) mod 256"
    by (rule mod_mod_cancel) simp
  finally show ?thesis .
qed

lemma seq_distinct:
  fixes a i j :: nat
  assumes "i < j" and "j < i + 256"
  shows "(a + Suc i) mod 256 \<noteq> (a + Suc j) mod 256"
proof
  assume "(a + Suc i) mod 256 = (a + Suc j) mod 256"
  then have "256 dvd (a + Suc j) - (a + Suc i)"
    by (metis mod_eq_dvd_iff_nat add_le_cancel_left assms(1) less_imp_le Suc_le_mono)
  then have "256 dvd j - i" by simp
  moreover have "0 < j - i" "j - i < 256" using assms by simp_all
  ultimately show False by (auto dest: dvd_imp_le)
qed

text \<open>
  C2. Run any list of calls from a driver whose slices have the sizes \<open>NewMinidrone\<close>
  gives them. Nothing panics. The frames handed to the command characteristic during
  the run are as many as the calls on the command channel (\<open>GenerateAllStates\<close>,
  \<open>TakeOff\<close>, \<open>Land\<close>, \<open>FlatTrim\<close>, \<open>Emergency\<close> and the four flips), and the sequence
  byte of the \<open>k\<close>-th of them (from 0) is the counter \<open>stepsfa0b\<close> at the start plus
  \<open>k + 1\<close>, modulo 256; the frames handed to the piloting characteristic are as many as
  the ticks of \<open>generatePcmd\<close>, with \<open>stepsfa0a\<close> in the same way. Two frames of a
  channel less than 256 apart never carry the same sequence byte. Each counter advances
  by the number of frames of its own channel only, whatever was called in between on the
  other channel or on the motion vector.
\<close>

theorem sequence_counters:
  assumes "sized m"
  shows "\<exists>m' F G.
     execs cs m = Inr m' \<and>
     commandCharacteristic m' = commandCharacteristic m @ F \<and>
     pcmdCharacteristic m' = pcmdCharacteristic m @ G \<and>
     length F = length (filter onCommandChannel cs) \<and>
     length G = length (filter onPcmdChannel cs) \<and>
     (\<forall>k<length F. unat (F ! k ! 1) = (unat (stepsfa0b m) + k + 1) mod 256) \<and>
     (\<forall>k<length G. unat (G ! k ! 1) = (unat (stepsfa0a m) + k + 1) mod 256) \<and>
     (\<forall>i j. i < j \<and> j < length F \<and> j < i + 256 \<longrightarrow> F ! i ! 1 \<noteq> F ! j ! 1) \<and>
     (\<forall>i j. i < j \<and> j < length G \<and> j < i + 256 \<longrightarrow> G ! i ! 1 \<noteq> G ! j ! 1) \<and>
     stepsfa0b m' = stepsfa0b m + of_nat (length F) \<and>
     stepsfa0a m' = stepsfa0a m + of_nat (length G)"
proof -
  from execs_sequences [OF assms, of cs] obtain m' F G where
    r: "execs cs m = Inr m'"
    and cF: "commandCharacteristic m' = commandCharacteristic m @ F"
    and pG: "pcmdCharacteristic m' = pcmdCharacteristic m @ G"
    and lF: "length F = length (filter onCommandChannel cs)"
    and lG: "length G = length (filter onPcmdChannel cs)"
    and sF: "\<forall>k<length F. F ! k ! 1 = ucast (stepsfa0b m + of_nat (Suc k))"
    and sG: "\<forall>k<length G. G ! k ! 1 = ucast (stepsfa0a m + of_nat (Suc k))"
    and b': "stepsfa0b m' = stepsfa0b m + of_nat (length F)"
    and a': "stepsfa0a m' = stepsfa0a m + of_nat (length G)"
    by blast
  have uF: "\<forall>k<length F. unat (F ! k ! 1) = (unat (stepsfa0b m) + k + 1) mod 256"
    using sF by (simp add: unat_seq_byte del: of_nat_Suc)
  have uG: "\<forall>k<length G. unat (G ! k ! 1) = (unat (stepsfa0a m) + k + 1) mod 256"
    using sG by (simp add: unat_seq_byte del: of_nat_Suc)
  have dF: "\<forall>i j. i < j \<and> j < length F \<and> j < i + 256 \<longrightarrow> F ! i ! 1 \<noteq> F ! j ! 1"
  proof (intro allI impI)
    fix i j assume h: "i < j \<and> j < length F \<and> j < i + 256"
    then have "unat (F ! i ! 1) \<noteq> unat (F ! j ! 1)"
      using uF seq_distinct [of i j "unat (stepsfa0b m)"] by simp
    then show "F ! i ! 1 \<noteq> F ! j ! 1" by auto
  qed
  have dG: "\<forall>i j. i < j \<and> j < length G \<and> j < i + 256 \<longrightarrow> G ! i ! 1 \<noteq> G ! j ! 1"
  proof (intro allI impI)
    fix i j assume h: "i < j \<and> j < length G \<and> j < i + 256"
    then have "unat (G ! i ! 1) \<noteq> unat (G ! j ! 1)"
      using uG seq_distinct [of i j "unat (stepsfa0a m)"] by simp
    then show "G ! i ! 1 \<noteq> G ! j ! 1" by auto
  qed
  from r cF pG lF lG uF uG dF dG b' a' show ?thesis by blast
qed

theorem sequence_counters_witness:
  "sized (NewMinidrone\<lparr> stepsfa0b := 254 \<rparr>) \<and>
   (\<exists>m'. execs [CallTakeOff None, CallPcmdTick None, CallUp 10, CallFrontFlip None,
                 CallPcmdTick (Some ''timeout''), CallLand None]
            (NewMinidrone\<lparr> stepsfa0b := 254 \<rparr>) = Inr m' \<and>
          map (\<lambda>f. f ! 1) (commandCharacteristic m') = [255, 0, 1] \<and>
          map (\<lambda>f. f ! 1) (pcmdCharacteristic m') = [1, 2] \<and>
          stepsfa0b m' = 257 \<and> stepsfa0a m' = 2)"
  using sequence_counters [of "NewMinidrone\<lparr> stepsfa0b := 254 \<rparr>"
      "[CallTakeOff None, CallPcmdTick None, CallUp 10, CallFrontFlip None,
        CallPcmdTick (Some ''timeout''), CallLand None]"]
  by (simp add: sized_def NewMinidrone_def TakeOff_def Land_def FrontFlip_def
      generateAnimation_def Up_def pcmdTick_def generatePcmd_def commandWrite_def
      pcmdWrite_def Let_def)

subsection \<open>The piloting-command frame\<close>

lemma le_bytes_roundtrip:
  fixes v :: "32 word"
  shows "ucast (ucast v :: byte) OR push_bit 8 (ucast (ucast (drop_bit 8 v) :: byte))
         OR push_bit 16 (ucast (ucast (drop_bit 16 v) :: byte))
         OR push_bit 24 (ucast (ucast (drop_bit 24 v) :: byte)) = v"
  apply (rule bit_word_eqI)
  apply (auto simp add: bit_simps)
  subgoal for n by (cases "24 \<le> n") simp_all
  done

lemma list19:
  assumes "length xs = 19"
  shows "xs = [xs ! 0, xs ! 1, xs ! 2, xs ! 3, xs ! 4, xs ! 5, xs ! 6, xs ! 7, xs ! 8, xs ! 9,
               xs ! 10, xs ! 11, xs ! 12, xs ! 13, xs ! 14, xs ! 15, xs ! 16, xs ! 17, xs ! 18]"
  using assms by (intro nth_equalityI) (auto simp add: less_Suc_eq numeral_eq_Suc)

lemma generatePcmd_frame:
  assumes "sized m" and "generatePcmd m = Inr m1"
  shows "pcmddata m1 =
           [0x02, ucast (stepsfa0a m + 1), 0x02, 0x00, 0x02, 0x00,
            word_of_int (Flag (Pcmd m)), word_of_int (Roll (Pcmd m)),
            word_of_int (Pitch (Pcmd m)), word_of_int (Yaw (Pcmd m)),
            word_of_int (Gaz (Pcmd m)),
            pcmddata m ! 11, pcmddata m ! 12, pcmddata m ! 13, pcmddata m ! 14,
            0x00, 0x00, 0x00, 0x00]"
    and "headingBits (buf m1) = Psi (Pcmd m)"
proof -
  from assms(1) have l: "length (pcmddata m) = 19" and lb: "length (buf m) = 255"
    by (simp_all add: sized_def)
  from assms have m1: "m1 = (m\<lparr> stepsfa0a := stepsfa0a m + 1 \<rparr>)
      \<lparr> buf := (buf m)[11 := ucast (Psi (Pcmd m)),
                   12 := ucast (drop_bit 8 (Psi (Pcmd m))),
                   13 := ucast (drop_bit 16 (Psi (Pcmd m))),
                   14 := ucast (drop_bit 24 (Psi (Pcmd m)))],
        pcmddata := (pcmddata m)
                  [0 := 0x02,
                   1 := ucast (stepsfa0a m + 1),
                   2 := 0x02,
                   3 := 0x00,
                   4 := 0x02,
                   5 := 0x00,
                   6 := word_of_int (Flag (Pcmd m)),
                   7 := word_of_int (Roll (Pcmd m)),
                   8 := word_of_int (Pitch (Pcmd m)),
                   9 := word_of_int (Yaw (Pcmd m)),
                   10 := word_of_int (Gaz (Pcmd m)),
                   15 := 0x00, 16 := 0x00, 17 := 0x00, 18 := 0x00] \<rparr>"
    by (simp add: generatePcmd_def sized_def Let_def)
  have l1: "length (pcmddata m1) = 19" using l by (simp add: m1)
  show "pcmddata m1 =
           [0x02, ucast (stepsfa0a m + 1), 0x02, 0x00, 0x02, 0x00,
            word_of_int (Flag (Pcmd m)), word_of_int (Roll (Pcmd m)),
            word_of_int (Pitch (Pcmd m)), word_of_int (Yaw (Pcmd m)),
            word_of_int (Gaz (Pcmd m)),
            pcmddata m ! 11, pcmddata m ! 12, pcmddata m ! 13, pcmddata m ! 14,
            0x00, 0x00, 0x00, 0x00]"
    by (subst list19 [OF l1]) (simp add: m1 l)
  show "headingBits (buf m1) = Psi (Pcmd m)"
    by (simp add: headingBits_def m1 lb le_bytes_roundtrip)
qed

text \<open>
  C1. \<open>generatePcmd\<close> stores the four bytes of the heading in \<open>m.buf\<close>, not in the
  frame \<open>m.pcmddata\<close>: with heading 1.0 (bit pattern \<open>0x3F800000\<close>) on a fresh driver
  the frame of the tick has 19 bytes, the fixed bytes, the sequence byte and the motion
  bytes are in place, but bytes 11 to 14 are zero and decode to the heading 0.0, while
  the encoded heading sits in bytes 11 to 14 of \<open>m.buf\<close>.
\<close>

theorem generatePcmd_heading_not_in_frame:
  "(case generatePcmd
           (NewMinidrone\<lparr> Pcmd := \<lparr> Flag = 1, Roll = 0, Pitch = 50, Yaw = 0, Gaz = 0,
                                    Psi = 0x3F800000 \<rparr> \<rparr>) of
      Inl p \<Rightarrow> False
    | Inr m1 \<Rightarrow>
        pcmddata m1 = [0x02, 0x01, 0x02, 0x00, 0x02, 0x00, 1, 0, 50, 0, 0,
                       0x00, 0x00, 0x00, 0x00, 0x00, 0x00, 0x00, 0x00] \<and>
        headingBits (pcmddata m1) = 0 \<and>
        headingBits (buf m1) = 0x3F800000)"
  by code_simp

subsection \<open>The piloting-command loop\<close>

lemma pcmdLoop_ticks:
  assumes "sized m"
  shows "\<exists>m' G. pcmdLoop evs m =
            Inr (if (\<exists>ev\<in>set evs. fst ev) then Returned else Looping, m') \<and>
          sized m' \<and>
          pcmdCharacteristic m' = pcmdCharacteristic m @ G \<and>
          length G = length (takeWhile (\<lambda>ev. \<not> fst ev) evs) \<and>
          stepsfa0a m' = stepsfa0a m + of_nat (length G)"
  using assms
proof (induction evs arbitrary: m)
  case Nil
  then show ?case by simp
next
  case (Cons ev evs)
  obtain shut e where ev: "ev = (shut, e)" by (cases ev)
  show ?case
  proof (cases shut)
    case True
    then show ?thesis using ev Cons.prems by simp
  next
    case False
    from pcmdTick_sized [OF Cons.prems, of e] obtain m1 f where
      t: "pcmdTick e m = Inr m1" and s1: "sized m1"
      and p1: "pcmdCharacteristic m1 = pcmdCharacteristic m @ [f]"
      and a1: "stepsfa0a m1 = stepsfa0a m + 1"
      by blast
    from Cons.IH [OF s1] obtain m' G where
      r: "pcmdLoop evs m1 =
            Inr (if (\<exists>ev\<in>set evs. fst ev) then Returned else Looping, m')"
      and s': "sized m'"
      and p': "pcmdCharacteristic m' = pcmdCharacteristic m1 @ G"
      and l': "length G = length (takeWhile (\<lambda>ev. \<not> fst ev) evs)"
      and a': "stepsfa0a m' = stepsfa0a m1 + of_nat (length G)"
      by blast
    have "pcmdLoop (ev # evs) m =
            Inr (if (\<exists>ev\<in>set (ev # evs). fst ev) then Returned else Looping, m')"
      using ev False t r by simp
    moreover have "pcmdCharacteristic m' = pcmdCharacteristic m @ (f # G)"
      using p1 p' by simp
    moreover have "length (f # G) = length (takeWhile (\<lambda>ev. \<not> fst ev) (ev # evs))"
      using ev False l' by simp
    moreover have "stepsfa0a m' = stepsfa0a m + of_nat (length (f # G))"
      using a1 a' by (simp add: add.assoc)
    ultimately show ?thesis using s' by blast
  qed
qed

text \<open>
  C9. Run the loop against any list of passes, from a driver whose slices have the sizes
  \<open>NewMinidrone\<close> gives them. The goroutine has returned at the end exactly when some
  pass found the shutdown signal at its \<open>select\<close>, and the number of frames it wrote is
  the number of passes before the first such pass; neither depends on what the writes
  returned. So a pass whose write fails is followed by the next pass, and only the
  signal ends the loop.
\<close>

theorem write_errors_do_not_stop_loop:
  assumes "sized m"
  shows "\<exists>m' G. pcmdLoop evs m =
            Inr (if (\<exists>ev\<in>set evs. fst ev) then Returned else Looping, m') \<and>
          pcmdCharacteristic m' = pcmdCharacteristic m @ G \<and>
          length G = length (takeWhile (\<lambda>ev. \<not> fst ev) evs)"
  using pcmdLoop_ticks [OF assms, of evs] by blast

theorem write_errors_do_not_stop_loop_witness:
  "sized NewMinidrone \<and>
   (\<exists>m'. pcmdLoop [(False, Some ''write failed''), (False, Some ''write failed''),
                   (False, None)] NewMinidrone = Inr (Looping, m') \<and>
          length (pcmdCharacteristic m') = 3) \<and>
   (\<exists>m'. pcmdLoop [(False, Some ''write failed''), (True, None), (False, None)]
            NewMinidrone = Inr (Returned, m') \<and>
          length (pcmdCharacteristic m') = 1)"
  using write_errors_do_not_stop_loop [of NewMinidrone
      "[(False, Some ''write failed''), (False, Some ''write failed''), (False, None)]"]
    write_errors_do_not_stop_loop [of NewMinidrone
      "[(False, Some ''write failed''), (True, None), (False, None)]"]
  by (auto simp add: sized_def NewMinidrone_def)

subsection \<open>Halt and the shutdown signal\<close>

lemma Land_sized: "sized (snd (Land e m)) = sized m"
  by (simp add: Land_def commandWrite_def sized_def Let_def)

lemma step_haltTwice:
  assumes "haltTwice s"
  shows "\<exists>s'. step t s = Inr s' \<and> haltTwice s'"
proof (cases t)
  case (Pair th e)
  show ?thesis
  proof (cases th)
    case Caller
    from assms have sz: "sized (drone s)" by (simp add: haltTwice_def)
    from assms consider
      (a) "loop s = Looping" "todo s = [HaltLand, HaltSend, HaltSleep] @ Halt"
      | (b) "loop s = Looping" "todo s = [HaltSend, HaltSleep] @ Halt"
      | (c) "loop s = Returned" "todo s = [HaltSleep] @ Halt"
      | (d) "loop s = Returned" "todo s = [HaltLand, HaltSend, HaltSleep]"
      | (e) "loop s = Returned" "todo s = [HaltSend, HaltSleep]"
      by (cases "loop s") (auto simp add: haltTwice_def Halt_def)
    then show ?thesis
    proof cases
      case a
      with Pair Caller sz show ?thesis by (simp add: haltTwice_def Land_sized)
    next
      case b
      with Pair Caller sz show ?thesis by (simp add: haltTwice_def)
    next
      case c
      with Pair Caller sz show ?thesis by (simp add: haltTwice_def)
    next
      case d
      with Pair Caller sz show ?thesis by (simp add: haltTwice_def Land_sized Halt_def)
    next
      case e
      with Pair Caller sz show ?thesis by (simp add: haltTwice_def)
    qed
  next
    case Loop
    show ?thesis
    proof (cases "loop s")
      case Returned
      with Pair Loop assms show ?thesis by simp
    next
      case Looping
      from assms have sz: "sized (drone s)" by (simp add: haltTwice_def)
      from pcmdTick_sized [OF sz, of e] obtain m1 where
        t: "pcmdTick e (drone s) = Inr m1" and s1: "sized m1" by blast
      from assms Looping consider
        (a) "todo s = Halt @ Halt" | (b) "todo s = [HaltSend, HaltSleep] @ Halt"
        by (auto simp add: haltTwice_def)
      then show ?thesis
      proof cases
        case a
        then have "\<not> senderWaiting s" by (simp add: senderWaiting_def Halt_def)
        with Pair Loop Looping t s1 a show ?thesis
          by (simp add: haltTwice_def)
      next
        case b
        then have "senderWaiting s" by (simp add: senderWaiting_def)
        with Pair Loop Looping sz b show ?thesis
          by (simp add: haltTwice_def)
      qed
    qed
  qed
qed

lemma run_haltTwice:
  assumes "haltTwice s"
  shows "\<exists>s'. run sched s = Inr s' \<and> haltTwice s'"
  using assms
proof (induction sched arbitrary: s)
  case Nil
  then show ?case by simp
next
  case (Cons t ts)
  from step_haltTwice [OF Cons.prems, of t] obtain s1 where
    "step t s = Inr s1" "haltTwice s1" by blast
  with Cons.IH [of s1] show ?case by simp
qed

lemma deadlocked_stays:
  assumes "deadlocked s"
  shows "run sched s = Inr s"
proof (induction sched)
  case Nil
  show ?case by simp
next
  case (Cons t ts)
  obtain th e where t: "t = (th, e)" by (cases t)
  from assms have "step (th, e) s = Inr s"
    by (cases th) (auto simp add: deadlocked_def enabled_def split: list.splits halt_stmt.splits goroutine.splits)
  with Cons t show ?case by simp
qed

text \<open>A goroutine is enabled exactly when its step changes the system.\<close>

lemma generatePcmd_counter:
  "generatePcmd m = Inr m1 \<Longrightarrow> stepsfa0a m1 = stepsfa0a m + 1"
  by (auto simp add: generatePcmd_def Let_def split: if_splits)

lemma pcmdTick_counter:
  assumes "pcmdTick e m = Inr m1"
  shows "stepsfa0a m1 = stepsfa0a m + 1"
proof (cases "generatePcmd m")
  case (Inl p)
  with assms show ?thesis by (simp add: pcmdTick_def)
next
  case (Inr m0)
  with assms generatePcmd_counter [OF Inr] show ?thesis
    by (cases e) (auto simp add: pcmdTick_def pcmdWrite_def Let_def)
qed

lemma enabled_iff_moves: "enabled th s \<longleftrightarrow> step (th, e) s \<noteq> Inr s"
proof (cases th)
  case Caller
  show ?thesis
  proof (cases "todo s")
    case Nil
    with Caller show ?thesis by (simp add: enabled_def)
  next
    case (Cons x r)
    have "r \<noteq> x # r" by simp
    then have "s\<lparr> todo := r \<rparr> \<noteq> s" "\<And>d. s\<lparr> drone := d, todo := r \<rparr> \<noteq> s"
      using Cons by (metis system.select_convs(3) system.surjective system.update_convs(3),
          metis system.select_convs(3) system.surjective system.update_convs(1,3))
    with Caller Cons show ?thesis by (cases x) (simp_all add: enabled_def)
  qed
next
  case Loop
  show ?thesis
  proof (cases "loop s")
    case Returned
    with Loop show ?thesis by (simp add: enabled_def)
  next
    case Looping
    show ?thesis
    proof (cases "senderWaiting s")
      case True
      have "s\<lparr> drone := drone s, loop := Returned, todo := tl (todo s) \<rparr> \<noteq> s"
        using Looping
        by (metis goroutine.distinct(1) system.select_convs(2) system.surjective
            system.update_convs(1,2,3))
      with Loop Looping True show ?thesis by (simp add: enabled_def)
    next
      case False
      show ?thesis
      proof (cases "pcmdTick e (drone s)")
        case (Inl p)
        with Loop Looping False show ?thesis by (simp add: enabled_def)
      next
        case (Inr d)
        from pcmdTick_counter [OF Inr] have "d \<noteq> drone s" by auto
        then have "s\<lparr> drone := d, loop := Looping, todo := todo s \<rparr> \<noteq> s"
          by (metis system.select_convs(1) system.surjective system.update_convs(1,2,3))
        with Loop Looping False Inr show ?thesis by (simp add: enabled_def)
      qed
    qed
  qed
qed

lemma Halt_once:
  assumes "sized m"
  shows "\<exists>s. run [(Caller, e1), (Loop, e2), (Caller, e3)] (StartPcmd m Halt) = Inr s \<and>
     todo s = [] \<and> loop s = Returned"
  by (simp add: StartPcmd_def Halt_def senderWaiting_def)

text \<open>
  C5, as the code has it. With the loop running, one call of \<open>Halt\<close> can complete: the
  loop takes the signal at its next \<open>select\<close> and returns, and \<open>Halt\<close> returns. Two
  calls of \<open>Halt\<close> in a row never complete, however the two goroutines are scheduled
  and whatever the writes return: nothing panics, the loop returns only by taking the
  first signal, and the caller never gets past the send of the second \<open>Halt\<close>. Once the
  caller stands at that send with the loop returned, no goroutine can take a step and
  the system stays as it is for ever.
\<close>

theorem Halt_once_returns_twice_blocks:
  assumes "sized m"
  shows "(\<exists>s. run [(Caller, e1), (Loop, e2), (Caller, e3)] (StartPcmd m Halt) = Inr s \<and>
            todo s = [] \<and> loop s = Returned) \<and>
         (\<exists>s. run sched (StartPcmd m (Halt @ Halt)) = Inr s \<and>
            (if loop s = Looping
             then todo s = Halt @ Halt \<or> todo s = [HaltSend, HaltSleep] @ Halt
             else todo s = [HaltSleep] @ Halt \<or> todo s = Halt \<or>
                  todo s = [HaltSend, HaltSleep])) \<and>
         (\<forall>s. loop s = Returned \<and> todo s = [HaltSend, HaltSleep] \<longrightarrow>
            deadlocked s \<and> run sched s = Inr s)"
proof (intro conjI allI impI)
  show "\<exists>s. run [(Caller, e1), (Loop, e2), (Caller, e3)] (StartPcmd m Halt) = Inr s \<and>
     todo s = [] \<and> loop s = Returned"
    using assms by (rule Halt_once)
next
  have "haltTwice (StartPcmd m (Halt @ Halt))"
    using assms by (simp add: haltTwice_def StartPcmd_def)
  from run_haltTwice [OF this, of sched]
  show "\<exists>s. run sched (StartPcmd m (Halt @ Halt)) = Inr s \<and>
            (if loop s = Looping
             then todo s = Halt @ Halt \<or> todo s = [HaltSend, HaltSleep] @ Halt
             else todo s = [HaltSleep] @ Halt \<or> todo s = Halt \<or>
                  todo s = [HaltSend, HaltSleep])"
    by (auto simp add: haltTwice_def)
next
  fix s :: system assume h: "loop s = Returned \<and> todo s = [HaltSend, HaltSleep]"
  then show d: "deadlocked s" by (simp add: deadlocked_def enabled_def)
  then show "run sched s = Inr s" by (rule deadlocked_stays)
qed

theorem Halt_once_returns_twice_blocks_witness:
  "sized NewMinidrone \<and>
   (\<exists>s. run [(Caller, None), (Loop, Some ''busy''), (Caller, None)]
           (StartPcmd NewMinidrone Halt) = Inr s \<and> todo s = [] \<and> loop s = Returned) \<and>
   (\<exists>s. run [(Loop, None), (Caller, None), (Loop, None), (Caller, None), (Caller, None),
              (Loop, None), (Caller, None)]
           (StartPcmd NewMinidrone (Halt @ Halt)) = Inr s \<and>
         loop s = Returned \<and> todo s = [HaltSend, HaltSleep])"
  using Halt_once_returns_twice_blocks [of NewMinidrone None "Some ''busy''" None
      "[(Loop, None), (Caller, None), (Loop, None), (Caller, None), (Caller, None),
        (Loop, None), (Caller, None)]"]
  by (simp add: sized_def NewMinidrone_def StartPcmd_def Halt_def senderWaiting_def
      pcmdTick_def generatePcmd_def pcmdWrite_def Let_def)

text \<open>
  C5, as the specification states it, fails: after \<open>StartPcmd\<close> on a fresh driver, the
  caller lands, the loop takes the signal and returns, the first \<open>Halt\<close> returns and
  the second \<open>Halt\<close> lands; the caller then stands at the second send, and the system
  is deadlocked.
\<close>

theorem second_Halt_deadlocks:
  "(case run [(Caller, None), (Loop, None), (Caller, None), (Caller, None)]
           (StartPcmd NewMinidrone (Halt @ Halt)) of
      Inl p \<Rightarrow> False
    | Inr s \<Rightarrow> loop s = Returned \<and> todo s = [HaltSend, HaltSleep] \<and> deadlocked s)"
  by (simp add: StartPcmd_def Halt_def senderWaiting_def deadlocked_def enabled_def)

end
